theory Spec2Isabelle
  imports Complex_Main "HOL-Library.List_Lexorder"
begin

section \<open>The query engine of mock-db-connector (src/lib/QueryBuilder.js)\<close>

text \<open>
  The engine is written in JavaScript and leans on the language's own operators
  (\<^verbatim>\<open>===\<close>, \<^verbatim>\<open>>\<close>, \<^verbatim>\<open>Array.prototype.includes\<close>, \<^verbatim>\<open>new RegExp\<close>).
  The embedding therefore has two layers: the part of ECMAScript those operators need,
  and the three methods of the class \<^verbatim>\<open>QueryBuilder\<close> themselves.
\<close>

subsection \<open>Values\<close>

text \<open>
  Numbers are IEEE doubles. The engine never does arithmetic on them, it only compares
  them, so a finite double is represented by its exact rational value (both zeros are
  the rational 0: no operation used here tells them apart) next to the three special
  values.
\<close>

datatype jsnum = NaN | NegInf | Fin rat | PosInf

text \<open>
  The values of the data model: the primitives, and arrays and plain objects. An array
  or an object is a reference in JavaScript; the natural number is its identity (its
  address), which is all that \<^verbatim>\<open>===\<close> looks at. An object lists its own enumerable
  properties in the order \<^verbatim>\<open>for ... in\<close> enumerates them; its prototype is
  \<^verbatim>\<open>Object.prototype\<close>, an array's is \<^verbatim>\<open>Array.prototype\<close>. Strings are sequences
  of code units. \<open>JUndefined\<close> is what reading an absent property gives.

  Data holds no functions, but reading a property can give one: every object inherits
  the methods of \<^verbatim>\<open>Object.prototype\<close>. \<open>JFunction n\<close> is the built-in function named
  \<open>n\<close>; two built-in functions are the same object when they have the same name.
  Symbols, BigInts and the built-in objects with a behaviour of their own (dates,
  compiled regular expressions) are not values of the data model.
\<close>

datatype jsval =
    JUndefined
  | JNull
  | JBool bool
  | JNum jsnum
  | JStr string
  | JArray nat "jsval list"
  | JObject nat "(string \<times> jsval) list"
  | JFunction string

text \<open>The two exceptions the engine can meet.\<close>

datatype error = TypeError | SyntaxError

text \<open>
  What the JavaScript runtime supplies and the repository does not define: reading a
  number out of a string, printing a number, the source text that
  \<^verbatim>\<open>Function.prototype.toString\<close> gives for a built-in function, and the regular
  expression engine. A compiled regular expression is represented by its pattern text.
  They are parameters of the model; every theorem holds for any runtime.
\<close>

record host =
  StringToNumber :: "string \<Rightarrow> jsnum"
  NumberToString :: "jsnum \<Rightarrow> string"
  FunctionToString :: "string \<Rightarrow> string"
  RegExpValid :: "string \<Rightarrow> bool"
  RegExpTest :: "string \<Rightarrow> string \<Rightarrow> bool"

subsection \<open>The ECMAScript operations the engine uses\<close>

text \<open>\<^verbatim>\<open>typeof v\<close>, \<^verbatim>\<open>Array.isArray(v)\<close> and the truthiness of \<^verbatim>\<open>v\<close> (ToBoolean).\<close>

fun typeof :: "jsval \<Rightarrow> string" where
  "typeof JUndefined = ''undefined''"
| "typeof JNull = ''object''"
| "typeof (JBool b) = ''boolean''"
| "typeof (JNum n) = ''number''"
| "typeof (JStr s) = ''string''"
| "typeof (JArray r xs) = ''object''"
| "typeof (JObject r ps) = ''object''"
| "typeof (JFunction n) = ''function''"

fun isArray :: "jsval \<Rightarrow> bool" where
  "isArray (JArray r xs) = True"
| "isArray v = False"

fun ToBoolean :: "jsval \<Rightarrow> bool" where
  "ToBoolean JUndefined = False"
| "ToBoolean JNull = False"
| "ToBoolean (JBool b) = b"
| "ToBoolean (JNum n) = (n \<noteq> NaN \<and> n \<noteq> Fin 0)"
| "ToBoolean (JStr s) = (s \<noteq> [])"
| "ToBoolean (JArray r xs) = True"
| "ToBoolean (JObject r ps) = True"
| "ToBoolean (JFunction n) = True"

text \<open>
  \<^verbatim>\<open>x === y\<close> (IsStrictlyEqual): values of different types are never equal, NaN is
  equal to nothing, and arrays and objects are equal when they are the same object.
\<close>

fun strict_equals :: "jsval \<Rightarrow> jsval \<Rightarrow> bool" where
  "strict_equals JUndefined JUndefined = True"
| "strict_equals JNull JNull = True"
| "strict_equals (JBool a) (JBool b) = (a = b)"
| "strict_equals (JNum a) (JNum b) = (a \<noteq> NaN \<and> b \<noteq> NaN \<and> a = b)"
| "strict_equals (JStr a) (JStr b) = (a = b)"
| "strict_equals (JArray r xs) (JArray r' ys) = (r = r')"
| "strict_equals (JObject r ps) (JObject r' qs) = (r = r')"
| "strict_equals (JFunction n) (JFunction n') = (n = n')"
| "strict_equals x y = False"

text \<open>
  SameValueZero, the comparison of \<^verbatim>\<open>Array.prototype.includes\<close>: as \<^verbatim>\<open>===\<close>, except
  that NaN is the same value as NaN.
\<close>

fun SameValueZero :: "jsval \<Rightarrow> jsval \<Rightarrow> bool" where
  "SameValueZero (JNum a) (JNum b) = (a = b)"
| "SameValueZero x y = strict_equals x y"

text \<open>\<^verbatim>\<open>xs.includes(v)\<close> on the elements of an array.\<close>

fun Array_includes :: "jsval list \<Rightarrow> jsval \<Rightarrow> bool" where
  "Array_includes [] v = False"
| "Array_includes (x # xs) v = (if SameValueZero x v then True else Array_includes xs v)"

text \<open>
  OrdinaryToPrimitive on a plain object. \<^verbatim>\<open>valueOf\<close> and \<^verbatim>\<open>toString\<close> are looked up
  on the object first: an own property holds data, which is not callable, and is
  skipped; otherwise the method of \<^verbatim>\<open>Object.prototype\<close> is called. The inherited
  \<^verbatim>\<open>valueOf\<close> returns the object itself, which is not a primitive, and the inherited
  \<^verbatim>\<open>toString\<close> returns \<^verbatim>\<open>[object Object]\<close>. So, for either hint, the conversion
  yields that string unless the object has an own property named \<^verbatim>\<open>toString\<close>, in
  which case no method yields a primitive and a TypeError is thrown.
\<close>

definition ObjectToPrimitive :: "(string \<times> jsval) list \<Rightarrow> error + string" where
  "ObjectToPrimitive ps =
     (if ''toString'' \<in> set (map fst ps) then Inl TypeError else Inr ''[object Object]'')"

text \<open>
  ToString, and \<^verbatim>\<open>Array.prototype.join\<close> with the separator \<^verbatim>\<open>,\<close> through which an
  array is converted (\<^verbatim>\<open>Array.prototype.toString\<close>): \<^verbatim>\<open>undefined\<close> and \<^verbatim>\<open>null\<close>
  elements print as the empty string, every other element through ToString; the first
  exception ends the conversion. A function converts to its source text
  (\<^verbatim>\<open>Function.prototype.toString\<close>).
\<close>

fun ToString :: "host \<Rightarrow> jsval \<Rightarrow> error + string"
  and join :: "host \<Rightarrow> jsval list \<Rightarrow> error + string" where
  "ToString h JUndefined = Inr ''undefined''"
| "ToString h JNull = Inr ''null''"
| "ToString h (JBool b) = Inr (if b then ''true'' else ''false'')"
| "ToString h (JNum n) = Inr (NumberToString h n)"
| "ToString h (JStr s) = Inr s"
| "ToString h (JArray r xs) = join h xs"
| "ToString h (JObject r ps) = ObjectToPrimitive ps"
| "ToString h (JFunction n) = Inr (FunctionToString h n)"
| "join h [] = Inr []"
| "join h (x # xs) =
     (case (if x = JUndefined \<or> x = JNull then Inr [] else ToString h x) of
        Inl e \<Rightarrow> Inl e
      | Inr s \<Rightarrow>
          (if xs = [] then Inr s
           else (case join h xs of Inl e \<Rightarrow> Inl e | Inr t \<Rightarrow> Inr (s @ '','' @ t))))"

text \<open>
  ToPrimitive: a primitive is returned as it is; an array, a plain object and a
  function have no \<^verbatim>\<open>Symbol.toPrimitive\<close> method and convert to a string as above
  (the inherited \<^verbatim>\<open>valueOf\<close> returns the object itself, so \<^verbatim>\<open>toString\<close> decides).
\<close>

fun ToPrimitive :: "host \<Rightarrow> jsval \<Rightarrow> error + jsval" where
  "ToPrimitive h (JArray r xs) =
     (case join h xs of Inl e \<Rightarrow> Inl e | Inr s \<Rightarrow> Inr (JStr s))"
| "ToPrimitive h (JObject r ps) =
     (case ObjectToPrimitive ps of Inl e \<Rightarrow> Inl e | Inr s \<Rightarrow> Inr (JStr s))"
| "ToPrimitive h (JFunction n) = Inr (JStr (FunctionToString h n))"
| "ToPrimitive h v = Inr v"

text \<open>
  ToNumber of a primitive. It is only applied to results of ToPrimitive, which are
  never arrays, objects or functions; the last equation is there to make the function
  total.
\<close>

fun ToNumber :: "host \<Rightarrow> jsval \<Rightarrow> jsnum" where
  "ToNumber h JUndefined = NaN"
| "ToNumber h JNull = Fin 0"
| "ToNumber h (JBool b) = (if b then Fin 1 else Fin 0)"
| "ToNumber h (JNum n) = n"
| "ToNumber h (JStr s) = StringToNumber h s"
| "ToNumber h v = NaN"

text \<open>
  Number::lessThan and the comparison of two strings by code units, the two halves of
  the abstract operation IsLessThan. The result \<open>None\<close> is the specification's
  \<^verbatim>\<open>undefined\<close>: one of the numbers is NaN.
\<close>

fun Number_lessThan :: "jsnum \<Rightarrow> jsnum \<Rightarrow> bool option" where
  "Number_lessThan NaN y = None"
| "Number_lessThan x NaN = None"
| "Number_lessThan PosInf y = Some False"
| "Number_lessThan x PosInf = Some True"
| "Number_lessThan x NegInf = Some False"
| "Number_lessThan NegInf y = Some True"
| "Number_lessThan (Fin a) (Fin b) = Some (a < b)"

fun String_lessThan :: "string \<Rightarrow> string \<Rightarrow> bool" where
  "String_lessThan xs [] = False"
| "String_lessThan [] (y # ys) = True"
| "String_lessThan (x # xs) (y # ys) =
     (if x = y then String_lessThan xs ys else (of_char x :: nat) < of_char y)"

text \<open>
  IsLessThan(x, y, LeftFirst): both operands are converted to primitives (in the order
  LeftFirst says), two strings are compared as strings, anything else as numbers.
\<close>

definition IsLessThan :: "host \<Rightarrow> jsval \<Rightarrow> jsval \<Rightarrow> bool \<Rightarrow> error + bool option" where
  "IsLessThan h x y LeftFirst =
     (case (if LeftFirst
            then (case ToPrimitive h x of Inl e \<Rightarrow> Inl e
                  | Inr px \<Rightarrow> (case ToPrimitive h y of Inl e \<Rightarrow> Inl e | Inr py \<Rightarrow> Inr (px, py)))
            else (case ToPrimitive h y of Inl e \<Rightarrow> Inl e
                  | Inr py \<Rightarrow> (case ToPrimitive h x of Inl e \<Rightarrow> Inl e | Inr px \<Rightarrow> Inr (px, py))))
      of Inl e \<Rightarrow> Inl e
       | Inr (JStr a, JStr b) \<Rightarrow> Inr (Some (String_lessThan a b))
       | Inr (px, py) \<Rightarrow> Inr (Number_lessThan (ToNumber h px) (ToNumber h py)))"

text \<open>The four relational operators, as the language defines them from IsLessThan.\<close>

definition js_lt :: "host \<Rightarrow> jsval \<Rightarrow> jsval \<Rightarrow> error + bool" where
  "js_lt h a b =
     (case IsLessThan h a b True of Inl e \<Rightarrow> Inl e
      | Inr r \<Rightarrow> Inr (case r of None \<Rightarrow> False | Some t \<Rightarrow> t))"

definition js_gt :: "host \<Rightarrow> jsval \<Rightarrow> jsval \<Rightarrow> error + bool" where
  "js_gt h a b =
     (case IsLessThan h b a False of Inl e \<Rightarrow> Inl e
      | Inr r \<Rightarrow> Inr (case r of None \<Rightarrow> False | Some t \<Rightarrow> t))"

definition js_le :: "host \<Rightarrow> jsval \<Rightarrow> jsval \<Rightarrow> error + bool" where
  "js_le h a b =
     (case IsLessThan h b a False of Inl e \<Rightarrow> Inl e
      | Inr r \<Rightarrow> Inr (case r of None \<Rightarrow> False | Some t \<Rightarrow> \<not> t))"

definition js_ge :: "host \<Rightarrow> jsval \<Rightarrow> jsval \<Rightarrow> error + bool" where
  "js_ge h a b =
     (case IsLessThan h a b True of Inl e \<Rightarrow> Inl e
      | Inr r \<Rightarrow> Inr (case r of None \<Rightarrow> False | Some t \<Rightarrow> \<not> t))"

text \<open>
  \<^verbatim>\<open>new RegExp(value)\<close>: \<^verbatim>\<open>undefined\<close> stands for the empty pattern, any other value
  is converted with ToString; a pattern that does not compile is a SyntaxError.
\<close>

definition RegExp_new :: "host \<Rightarrow> jsval \<Rightarrow> error + string" where
  "RegExp_new h v =
     (case (if v = JUndefined then Inr [] else ToString h v) of
        Inl e \<Rightarrow> Inl e
      | Inr p \<Rightarrow> (if RegExpValid h p then Inr p else Inl SyntaxError))"

subsection \<open>QueryBuilder\<close>

text \<open>
  A document is an object held in the collection's array: its identity and its own
  properties; its prototype is \<^verbatim>\<open>Object.prototype\<close>.
\<close>

record document =
  oid :: nat
  props :: "(string \<times> jsval) list"

text \<open>
  \<^verbatim>\<open>Object.prototype\<close>: the object itself (identity 0 is kept for it; it has no
  enumerable property) and what reading each of its properties gives. \<^verbatim>\<open>constructor\<close>
  is the function \<^verbatim>\<open>Object\<close>, \<^verbatim>\<open>__proto__\<close> is an accessor that returns the prototype
  of the object it is read on, the other ten are methods.
\<close>

definition Object_prototype :: jsval where
  "Object_prototype = JObject 0 []"

definition Object_prototype_methods :: "string list" where
  "Object_prototype_methods =
     [''hasOwnProperty'', ''isPrototypeOf'', ''propertyIsEnumerable'', ''toLocaleString'',
      ''toString'', ''valueOf'', ''__defineGetter__'', ''__defineSetter__'',
      ''__lookupGetter__'', ''__lookupSetter__'']"

definition inherited_names :: "string list" where
  "inherited_names = ''constructor'' # ''__proto__'' # Object_prototype_methods"

definition Object_prototype_Get :: "string \<Rightarrow> jsval" where
  "Object_prototype_Get key =
     (if key = ''constructor'' then JFunction ''Object''
      else if key = ''__proto__'' then Object_prototype
      else if key \<in> set Object_prototype_methods then JFunction key
      else JUndefined)"

text \<open>
  \<^verbatim>\<open>doc[key]\<close>: an own property if the document has one of that name, otherwise
  what the prototype gives, which is \<^verbatim>\<open>undefined\<close> for every name it does not define.
\<close>

definition Get :: "document \<Rightarrow> string \<Rightarrow> jsval" where
  "Get doc key =
     (case map_of (props doc) key of None \<Rightarrow> Object_prototype_Get key | Some v \<Rightarrow> v)"

text \<open>\<^verbatim>\<open>_matchesOperator(fieldValue, operator, value)\<close>, the \<^verbatim>\<open>switch\<close> case by case.\<close>

definition matchesOperator :: "host \<Rightarrow> jsval \<Rightarrow> string \<Rightarrow> jsval \<Rightarrow> error + bool" where
  "matchesOperator h fieldValue operator v =
     (if operator = ''$eq'' then Inr (strict_equals fieldValue v)
      else if operator = ''$ne'' then Inr (\<not> strict_equals fieldValue v)
      else if operator = ''$gt'' then js_gt h fieldValue v
      else if operator = ''$gte'' then js_ge h fieldValue v
      else if operator = ''$lt'' then js_lt h fieldValue v
      else if operator = ''$lte'' then js_le h fieldValue v
      else if operator = ''$in'' then
        Inr (case v of JArray r xs \<Rightarrow> Array_includes xs fieldValue | _ \<Rightarrow> False)
      else if operator = ''$regex'' then
        (case fieldValue of
           JStr s \<Rightarrow>
             (case RegExp_new h v of Inl e \<Rightarrow> Inl e | Inr regex \<Rightarrow> Inr (RegExpTest h regex s))
         | _ \<Rightarrow> Inr False)
      else Inr False)"

text \<open>
  The inner loop of \<^verbatim>\<open>_matchesQuery\<close>, \<^verbatim>\<open>for (const operator in queryValue)\<close>, over
  the own properties of the operator object: it returns false at the first operator
  that does not hold and is left by the first exception.
\<close>

fun matchesOperators :: "host \<Rightarrow> jsval \<Rightarrow> (string \<times> jsval) list \<Rightarrow> error + bool" where
  "matchesOperators h docValue [] = Inr True"
| "matchesOperators h docValue ((operator, v) # rest) =
     (case matchesOperator h docValue operator v of
        Inl e \<Rightarrow> Inl e
      | Inr b \<Rightarrow> (if \<not> b then Inr False else matchesOperators h docValue rest))"

text \<open>The own properties a \<^verbatim>\<open>for ... in\<close> loop over a value enumerates.\<close>

fun properties :: "jsval \<Rightarrow> (string \<times> jsval) list" where
  "properties (JObject r ps) = ps"
| "properties v = []"

text \<open>
  \<^verbatim>\<open>_matchesQuery(doc, query)\<close>: the outer loop \<^verbatim>\<open>for (const key in query)\<close> over the
  properties of the query, in enumeration order (the keys of an object are distinct, so
  \<^verbatim>\<open>query[key]\<close> is the value listed with the key). A query value that is truthy, of
  type \<^verbatim>\<open>object\<close> and not an array is an operator object; any other is compared
  with \<^verbatim>\<open>$eq\<close>.
\<close>

fun matchesQuery :: "host \<Rightarrow> document \<Rightarrow> (string \<times> jsval) list \<Rightarrow> error + bool" where
  "matchesQuery h doc [] = Inr True"
| "matchesQuery h doc ((key, queryValue) # rest) =
     (let docValue = Get doc key in
      if ToBoolean queryValue \<and> typeof queryValue = ''object'' \<and> \<not> isArray queryValue
      then (case matchesOperators h docValue (properties queryValue) of
              Inl e \<Rightarrow> Inl e
            | Inr b \<Rightarrow> (if \<not> b then Inr False else matchesQuery h doc rest))
      else (case matchesOperator h docValue ''$eq'' queryValue of
              Inl e \<Rightarrow> Inl e
            | Inr b \<Rightarrow> (if \<not> b then Inr False else matchesQuery h doc rest)))"

text \<open>
  \<^verbatim>\<open>Array.prototype.filter\<close> with \<^verbatim>\<open>doc => this._matchesQuery(doc, query)\<close> as its
  callback: the documents are visited in order, and an exception of the callback ends
  the call.
\<close>

fun filter_documents ::
  "host \<Rightarrow> (string \<times> jsval) list \<Rightarrow> document list \<Rightarrow> error + document list" where
  "filter_documents h query [] = Inr []"
| "filter_documents h query (doc # docs) =
     (case matchesQuery h doc query of
        Inl e \<Rightarrow> Inl e
      | Inr b \<Rightarrow>
          (case filter_documents h query docs of
             Inl e \<Rightarrow> Inl e
           | Inr kept \<Rightarrow> Inr (if b then doc # kept else kept)))"

text \<open>
  The class: its one field, the constructor, \<^verbatim>\<open>match\<close> (which stores the filtered
  array in the field and returns the builder) and \<^verbatim>\<open>execute\<close>. The constructor is
  given an array, which is truthy, so \<^verbatim>\<open>documents || []\<close> is that array. A query is
  an object, so \<^verbatim>\<open>!query\<close> is false and the guard of \<^verbatim>\<open>match\<close> is the test for
  no keys.
\<close>

record QueryBuilder =
  documents :: "document list"

definition new_QueryBuilder :: "document list \<Rightarrow> QueryBuilder" where
  "new_QueryBuilder docs = \<lparr>documents = docs\<rparr>"

definition match :: "host \<Rightarrow> QueryBuilder \<Rightarrow> (string \<times> jsval) list \<Rightarrow> error + QueryBuilder" where
  "match h this query =
     (if length (map fst query) = 0 then Inr this
      else (case filter_documents h query (documents this) of
              Inl e \<Rightarrow> Inl e
            | Inr kept \<Rightarrow> Inr (this\<lparr>documents := kept\<rparr>)))"

definition execute :: "QueryBuilder \<Rightarrow> document list" where
  "execute this = documents this"

text \<open>
  \<^verbatim>\<open>new QueryBuilder(docs).match(filter).execute()\<close>, the way the collection runs every
  query; the specification calls it \<^verbatim>\<open>matchAll\<close>, and \<^verbatim>\<open>_matchesQuery\<close> is its
  \<^verbatim>\<open>matches\<close>.
\<close>

definition matchAll :: "host \<Rightarrow> document list \<Rightarrow> (string \<times> jsval) list \<Rightarrow> error + document list" where
  "matchAll h docs query =
     (case match h (new_QueryBuilder docs) query of
        Inl e \<Rightarrow> Inl e
      | Inr this \<Rightarrow> Inr (execute this))"

text \<open>
  For the statement of the theorems only: the numeric order the comparison operators
  are meant to implement. Minus infinity lies below and plus infinity above every
  finite number, and NaN is comparable to nothing.
\<close>

fun num_less :: "jsnum \<Rightarrow> jsnum \<Rightarrow> bool" where
  "num_less (Fin a) (Fin b) = (a < b)"
| "num_less NegInf (Fin b) = True"
| "num_less NegInf PosInf = True"
| "num_less (Fin a) PosInf = True"
| "num_less x y = False"

text \<open>
  For the statement of the theorems only: the values that have a primitive value. A
  plain object with an own property named \<^verbatim>\<open>toString\<close> has none, nor has an array
  with an element that has none; every other value has one.
\<close>

fun convertible :: "jsval \<Rightarrow> bool" where
  "convertible (JArray r xs) = list_all convertible xs"
| "convertible (JObject r ps) = (''toString'' \<notin> set (map fst ps))"
| "convertible v = True"

section \<open>Properties\<close>

subsection \<open>Unfolding the loops\<close>

lemma matchAll_unfold:
  "matchAll h docs query = (if query = [] then Inr docs else filter_documents h query docs)"
  by (simp add: matchAll_def match_def new_QueryBuilder_def execute_def split: sum.split)

lemma filter_documents_returns:
  "(\<forall>d \<in> set docs. \<exists>b. matchesQuery h d query = Inr b) \<Longrightarrow>
     filter_documents h query docs = Inr (filter (\<lambda>d. matchesQuery h d query = Inr True) docs)"
  by (induction docs) auto

lemma filter_documents_Inr:
  "filter_documents h query docs = Inr kept \<Longrightarrow>
     (\<forall>d \<in> set docs. \<exists>b. matchesQuery h d query = Inr b)"
  by (induction docs arbitrary: kept) (auto split: sum.splits)

lemma filter_documents_Inl:
  "filter_documents h query docs = Inl e \<Longrightarrow> \<exists>d \<in> set docs. matchesQuery h d query = Inl e"
  by (induction docs) (auto split: sum.splits)

lemma filter_documents_none:
  "(\<forall>d \<in> set docs. matchesQuery h d query = Inr False) \<Longrightarrow>
     filter_documents h query docs = Inr []"
  by (induction docs) auto

lemma filter_documents_cong:
  "(\<forall>d \<in> set docs. matchesQuery h d q = matchesQuery h d q') \<Longrightarrow>
     filter_documents h q docs = filter_documents h q' docs"
  by (induction docs) (auto split: sum.split)

lemma operator_object_iff:
  "(ToBoolean v \<and> typeof v = ''object'' \<and> \<not> isArray v) = (\<exists>r ps. v = JObject r ps)"
  by (cases v) simp_all

lemma matchesQuery_Cons:
  "matchesQuery h doc ((key, queryValue) # rest) =
     (case (if ToBoolean queryValue \<and> typeof queryValue = ''object'' \<and> \<not> isArray queryValue
            then matchesOperators h (Get doc key) (properties queryValue)
            else matchesOperator h (Get doc key) ''$eq'' queryValue) of
        Inl e \<Rightarrow> Inl e
      | Inr b \<Rightarrow> (if b then matchesQuery h doc rest else Inr False))"
  by (simp add: Let_def split: sum.split)

declare matchesQuery.simps(2) [simp del]

lemma matchesQuery_literal:
  "\<forall>r ps. v \<noteq> JObject r ps \<Longrightarrow>
     matchesQuery h doc ((key, v) # rest) =
       (if strict_equals (Get doc key) v then matchesQuery h doc rest else Inr False)"
  by (simp add: matchesQuery_Cons operator_object_iff matchesOperator_def)

lemma matchesQuery_operators:
  "matchesQuery h doc ((key, JObject r ops) # rest) =
     (case matchesOperators h (Get doc key) ops of
        Inl e \<Rightarrow> Inl e
      | Inr b \<Rightarrow> (if b then matchesQuery h doc rest else Inr False))"
  by (simp add: matchesQuery_Cons)

lemma matchesQuery_single_cases:
  "matchesQuery h d ((k, qv) # rest) =
     (case matchesQuery h d [(k, qv)] of
        Inl e \<Rightarrow> Inl e
      | Inr b \<Rightarrow> (if b then matchesQuery h d rest else Inr False))"
  by (simp add: matchesQuery_Cons split: sum.split)

lemma matchesOperator_unknown:
  "operator \<notin> {''$eq'', ''$ne'', ''$gt'', ''$gte'', ''$lt'', ''$lte'', ''$in'', ''$regex''} \<Longrightarrow>
     matchesOperator h fieldValue operator v = Inr False"
  by (simp add: matchesOperator_def)

lemma filter_both:
  "filter (\<lambda>d. d \<in> set (filter Q xs)) (filter P xs) = filter (\<lambda>d. P d \<and> Q d) xs"
proof -
  have "filter (\<lambda>d. P d \<and> d \<in> set xs \<and> Q d) xs = filter (\<lambda>d. P d \<and> Q d) xs"
    by (rule filter_cong) auto
  then show ?thesis by (simp add: conj_commute)
qed

subsection \<open>Conversions and comparisons\<close>

lemma ToString_join_TypeError:
  "(ToString h v = Inl e \<longrightarrow> e = TypeError)"
  "(join h xs = Inl e \<longrightarrow> e = TypeError)"
  by (induction h v and h xs rule: ToString_join.induct)
     (auto simp: ObjectToPrimitive_def split: if_splits sum.splits)

lemma ToPrimitive_TypeError: "ToPrimitive h v = Inl e \<Longrightarrow> e = TypeError"
  using ToString_join_TypeError(2) [of h _ e]
  by (cases v) (auto simp: ObjectToPrimitive_def split: if_splits sum.splits)

lemma ToString_join_fails:
  "(\<exists>e. ToString h v = Inl e) = (\<not> convertible v)"
  "(\<exists>e. join h xs = Inl e) = (\<not> list_all convertible xs)"
  by (induction h v and h xs rule: ToString_join.induct)
     (auto simp: ObjectToPrimitive_def split: if_splits sum.splits)

lemma ToPrimitive_fails: "(ToPrimitive h v = Inl e) = (e = TypeError \<and> \<not> convertible v)"
proof (cases v)
  case (JArray r xs)
  have te: "\<And>e'. join h xs = Inl e' \<Longrightarrow> e' = TypeError"
    using ToString_join_TypeError(2) by blast
  with ToString_join_fails(2) [of h xs] JArray show ?thesis
    by (auto split: sum.splits)
next
  case (JObject r ps)
  then show ?thesis by (auto simp: ObjectToPrimitive_def)
qed simp_all






lemma IsLessThan_Inl:
  "(IsLessThan h x y lf = Inl e) =
     (e = TypeError \<and> ((\<exists>e'. ToPrimitive h x = Inl e') \<or> (\<exists>e'. ToPrimitive h y = Inl e')))"
proof (cases "ToPrimitive h x")
  case (Inl ex)
  then have "ex = TypeError" by (rule ToPrimitive_TypeError)
  with Inl show ?thesis
    by (cases "ToPrimitive h y")
       (auto simp: IsLessThan_def dest: ToPrimitive_TypeError split: sum.splits)
next
  case (Inr px)
  show ?thesis
  proof (cases "ToPrimitive h y")
    case (Inl ey)
    then have "ey = TypeError" by (rule ToPrimitive_TypeError)
    with Inl Inr show ?thesis by (auto simp: IsLessThan_def)
  next
    case r: (Inr py)
    with Inr show ?thesis
      by (simp add: IsLessThan_def split: jsval.split)
  qed
qed

lemma Number_lessThan_num_less:
  "Number_lessThan a b = (if a = NaN \<or> b = NaN then None else Some (num_less a b))"
  by (cases a; cases b) simp_all




lemma num_less_total:
  "a \<noteq> NaN \<Longrightarrow> b \<noteq> NaN \<Longrightarrow> (\<not> num_less b a) = (num_less a b \<or> a = b)"
  by (cases a; cases b) auto

lemma IsLessThan_undefined_left:
  "ToPrimitive h v = Inr p \<Longrightarrow> IsLessThan h JUndefined v lf = Inr None"
  by (cases p) (simp_all add: IsLessThan_def)

lemma Number_lessThan_NaN_right: "Number_lessThan x NaN = None"
  by (cases x) simp_all

lemma IsLessThan_undefined_right:
  "ToPrimitive h v = Inr p \<Longrightarrow> IsLessThan h v JUndefined lf = Inr None"
  by (cases p) (simp_all add: IsLessThan_def Number_lessThan_NaN_right)

lemma ordering_cases:
  "operator \<in> {''$gt'', ''$gte'', ''$lt'', ''$lte''} \<Longrightarrow>
     matchesOperator h fv operator v =
       (if operator = ''$gt'' then js_gt h fv v
        else if operator = ''$gte'' then js_ge h fv v
        else if operator = ''$lt'' then js_lt h fv v
        else js_le h fv v)"
  by (auto simp: matchesOperator_def)

lemma js_Inl:
  "(js_lt h a b = Inl e) = (IsLessThan h a b True = Inl e)"
  "(js_ge h a b = Inl e) = (IsLessThan h a b True = Inl e)"
  "(js_gt h a b = Inl e) = (IsLessThan h b a False = Inl e)"
  "(js_le h a b = Inl e) = (IsLessThan h b a False = Inl e)"
  by (simp_all add: js_lt_def js_ge_def js_gt_def js_le_def split: sum.split)

lemma ordering_Inl:
  assumes "operator \<in> {''$gt'', ''$gte'', ''$lt'', ''$lte''}"
  shows "(matchesOperator h fv operator v = Inl e) =
     (e = TypeError \<and> ((\<exists>e'. ToPrimitive h fv = Inl e') \<or> (\<exists>e'. ToPrimitive h v = Inl e')))"
  using assms by (auto simp: ordering_cases js_Inl IsLessThan_Inl)

lemma ordering_undefined:
  assumes "operator \<in> {''$gt'', ''$gte'', ''$lt'', ''$lte''}" and "ToPrimitive h v = Inr p"
  shows "matchesOperator h JUndefined operator v = Inr False"
  using assms
  by (auto simp: ordering_cases js_lt_def js_ge_def js_gt_def js_le_def
      IsLessThan_undefined_left IsLessThan_undefined_right)

lemma strict_equals_undefined: "strict_equals JUndefined c = (c = JUndefined)"
  by (cases c) simp_all

lemmas Get_unfold =
  Get_def Object_prototype_Get_def Object_prototype_methods_def Object_prototype_def

lemma Get_missing:
  "map_of (props doc) f = None \<Longrightarrow> f \<notin> set inherited_names \<Longrightarrow> Get doc f = JUndefined"
  by (simp add: Get_def Object_prototype_Get_def inherited_names_def)

lemma SameValueZero_iff:
  "SameValueZero x y = (strict_equals x y \<or> (x = JNum NaN \<and> y = JNum NaN))"
  by (cases x; cases y) auto

lemma Array_includes_iff:
  "Array_includes xs v = (\<exists>x \<in> set xs. SameValueZero x v)"
  by (induction xs) auto

subsection \<open>Where an exception can come from\<close>

lemma matchesOperators_Inl:
  "matchesOperators h dv ops = Inl e \<Longrightarrow>
     \<exists>operator v. (operator, v) \<in> set ops \<and> matchesOperator h dv operator v = Inl e"
proof (induction ops)
  case Nil
  then show ?case by simp
next
  case (Cons ov ops)
  obtain operator v where ov: "ov = (operator, v)" by (cases ov)
  show ?case
  proof (cases "matchesOperator h dv operator v")
    case (Inl e')
    with Cons.prems ov have "e' = e" by simp
    with Inl ov show ?thesis by auto
  next
    case (Inr b)
    with Cons.prems ov have "matchesOperators h dv ops = Inl e"
      by (simp split: if_splits)
    with Cons.IH ov show ?thesis by auto
  qed
qed

lemma matchesQuery_Inl:
  "matchesQuery h doc q = Inl e \<Longrightarrow>
     \<exists>key r ops. (key, JObject r ops) \<in> set q \<and> matchesOperators h (Get doc key) ops = Inl e"
proof (induction q)
  case Nil
  then show ?case by simp
next
  case (Cons kv q)
  obtain key qv where kv: "kv = (key, qv)" by (cases kv)
  show ?case
  proof (cases "\<exists>r ps. qv = JObject r ps")
    case True
    then obtain r ps where qv: "qv = JObject r ps" by blast
    show ?thesis
    proof (cases "matchesOperators h (Get doc key) ps")
      case (Inl e')
      with Cons.prems kv qv have "e' = e" by (simp add: matchesQuery_operators)
      with Inl kv qv show ?thesis by auto
    next
      case (Inr b)
      with Cons.prems kv qv have "matchesQuery h doc q = Inl e"
        by (simp add: matchesQuery_operators split: if_splits)
      with Cons.IH show ?thesis by auto
    qed
  next
    case False
    with Cons.prems kv have "matchesQuery h doc q = Inl e"
      by (simp add: matchesQuery_literal split: if_splits)
    with Cons.IH show ?thesis by auto
  qed
qed

lemma RegExp_new_Inl:
  "(RegExp_new h v = Inl e) =
     ((e = SyntaxError \<and>
         (\<exists>p. (if v = JUndefined then Inr [] else ToString h v) = Inr p \<and> \<not> RegExpValid h p)) \<or>
      (e = TypeError \<and> (\<exists>e'. ToString h v = Inl e')))"
  using ToString_join_TypeError(1) [of h v]
  by (cases "ToString h v") (auto simp: RegExp_new_def)

lemma regex_Inl:
  "(matchesOperator h fv ''$regex'' v = Inl e) = ((\<exists>s. fv = JStr s) \<and> RegExp_new h v = Inl e)"
  by (cases fv) (auto simp: matchesOperator_def split: sum.splits)

lemma matchesOperator_Inl:
  "(matchesOperator h fv operator v = Inl e) =
     ((operator = ''$regex'' \<and> (\<exists>s. fv = JStr s) \<and> RegExp_new h v = Inl e) \<or>
      (operator \<in> {''$gt'', ''$gte'', ''$lt'', ''$lte''} \<and> e = TypeError \<and>
         ((\<exists>e'. ToPrimitive h fv = Inl e') \<or> (\<exists>e'. ToPrimitive h v = Inl e'))))"
proof (cases "operator \<in> {''$gt'', ''$gte'', ''$lt'', ''$lte''}")
  case True
  then have "operator \<noteq> ''$regex''" by auto
  with True show ?thesis by (simp only: ordering_Inl [OF True]) simp
next
  case ord: False
  show ?thesis
  proof (cases "operator = ''$regex''")
    case True
    with ord show ?thesis by (simp add: regex_Inl)
  next
    case False
    with ord show ?thesis by (auto simp: matchesOperator_def)
  qed
qed

subsection \<open>matchAll is an order-preserving filter\<close>

text \<open>
  Claim C5. For every sequence of documents and every filter, what \<open>matchAll\<close> returns
  is the list of the documents for which \<open>matchesQuery\<close> is true, in their original
  order; it does return whenever no document makes \<open>matchesQuery\<close> throw; and with
  the empty filter it returns every document.
\<close>

theorem matchAll_is_ordered_filter:
  "(matchAll h docs query = Inr result \<longrightarrow>
      result = filter (\<lambda>d. matchesQuery h d query = Inr True) docs) \<and>
   ((\<forall>d \<in> set docs. \<exists>b. matchesQuery h d query = Inr b) \<longrightarrow>
      matchAll h docs query = Inr (filter (\<lambda>d. matchesQuery h d query = Inr True) docs)) \<and>
   matchAll h docs [] = Inr docs"
proof (intro conjI impI)
  assume r: "matchAll h docs query = Inr result"
  show "result = filter (\<lambda>d. matchesQuery h d query = Inr True) docs"
  proof (cases "query = []")
    case True
    with r show ?thesis by (simp add: matchAll_unfold)
  next
    case False
    with r have f: "filter_documents h query docs = Inr result"
      by (simp add: matchAll_unfold)
    then have "\<forall>d \<in> set docs. \<exists>b. matchesQuery h d query = Inr b"
      by (rule filter_documents_Inr)
    then have "filter_documents h query docs =
        Inr (filter (\<lambda>d. matchesQuery h d query = Inr True) docs)"
      by (rule filter_documents_returns)
    with f show ?thesis by simp
  qed
next
  assume "\<forall>d \<in> set docs. \<exists>b. matchesQuery h d query = Inr b"
  then have "filter_documents h query docs =
      Inr (filter (\<lambda>d. matchesQuery h d query = Inr True) docs)"
    by (rule filter_documents_returns)
  then show "matchAll h docs query = Inr (filter (\<lambda>d. matchesQuery h d query = Inr True) docs)"
    by (cases "query = []") (simp_all add: matchAll_unfold)
next
  show "matchAll h docs [] = Inr docs" by (simp add: matchAll_unfold)
qed

text \<open>
  The scenario of the specification: of three documents with the ages 30, 25 and 35,
  the filter \<^verbatim>\<open>{age: {$gte: 28}}\<close> keeps the first and the third, in that order.
\<close>

theorem matchAll_is_ordered_filter_witness:
  "\<forall>h. matchAll h
         [\<lparr>oid = 1, props = [(''age'', JNum (Fin 30))]\<rparr>,
          \<lparr>oid = 2, props = [(''age'', JNum (Fin 25))]\<rparr>,
          \<lparr>oid = 3, props = [(''age'', JNum (Fin 35))]\<rparr>]
         [(''age'', JObject 4 [(''$gte'', JNum (Fin 28))])] =
       Inr [\<lparr>oid = 1, props = [(''age'', JNum (Fin 30))]\<rparr>,
            \<lparr>oid = 3, props = [(''age'', JNum (Fin 35))]\<rparr>]"
proof
  fix h
  let ?docs = "[\<lparr>oid = 1, props = [(''age'', JNum (Fin 30))]\<rparr>,
          \<lparr>oid = 2, props = [(''age'', JNum (Fin 25))]\<rparr>,
          \<lparr>oid = 3, props = [(''age'', JNum (Fin 35))]\<rparr>]"
  let ?q = "[(''age'', JObject 4 [(''$gte'', JNum (Fin 28))])]"
  have each: "\<forall>d \<in> set ?docs. \<exists>b. matchesQuery h d ?q = Inr b"
    by (auto simp: matchesQuery_Cons Get_def matchesOperator_def js_ge_def IsLessThan_def)
  with matchAll_is_ordered_filter [of h ?docs ?q]
  have "matchAll h ?docs ?q = Inr (filter (\<lambda>d. matchesQuery h d ?q = Inr True) ?docs)"
    by blast
  then show "matchAll h ?docs ?q =
       Inr [\<lparr>oid = 1, props = [(''age'', JNum (Fin 30))]\<rparr>,
            \<lparr>oid = 3, props = [(''age'', JNum (Fin 35))]\<rparr>]"
    by (simp add: matchesQuery_Cons Get_def matchesOperator_def js_ge_def IsLessThan_def)
qed

subsection \<open>A literal is an implicit \<^verbatim>\<open>$eq\<close>\<close>

text \<open>
  Claim C6. For every document set and every filter value \<open>v\<close> that is not an
  operator object (any primitive, \<^verbatim>\<open>null\<close> and any array included), the filter
  \<^verbatim>\<open>{f: v}\<close> has the outcome of the filter \<^verbatim>\<open>{f: {$eq: v}}\<close>.
\<close>

theorem implicit_equality_equivalence:
  assumes "\<forall>r ps. v \<noteq> JObject r ps"
  shows "matchAll h docs [(f, v)] = matchAll h docs [(f, JObject r' [(''$eq'', v)])]"
proof -
  have "\<And>d. matchesQuery h d [(f, v)] = matchesQuery h d [(f, JObject r' [(''$eq'', v)])]"
    using assms by (simp add: matchesQuery_literal matchesQuery_operators matchesOperator_def)
  then have "filter_documents h [(f, v)] docs =
      filter_documents h [(f, JObject r' [(''$eq'', v)])] docs"
    by (simp add: filter_documents_cong)
  then show ?thesis by (simp add: matchAll_unfold)
qed

theorem implicit_equality_equivalence_witness:
  "\<forall>h. matchAll h
         [\<lparr>oid = 1, props = [(''age'', JNum (Fin 30))]\<rparr>,
          \<lparr>oid = 2, props = [(''age'', JNum (Fin 25))]\<rparr>]
         [(''age'', JNum (Fin 30))] =
       matchAll h
         [\<lparr>oid = 1, props = [(''age'', JNum (Fin 30))]\<rparr>,
          \<lparr>oid = 2, props = [(''age'', JNum (Fin 25))]\<rparr>]
         [(''age'', JObject 3 [(''$eq'', JNum (Fin 30))])] \<and>
       matchAll h
         [\<lparr>oid = 1, props = [(''age'', JNum (Fin 30))]\<rparr>,
          \<lparr>oid = 2, props = [(''age'', JNum (Fin 25))]\<rparr>]
         [(''age'', JNum (Fin 30))] =
       Inr [\<lparr>oid = 1, props = [(''age'', JNum (Fin 30))]\<rparr>]"
  using implicit_equality_equivalence [of "JNum (Fin 30)"]
  by (simp add: matchAll_unfold matchesQuery_Cons Get_def matchesOperator_def)

subsection \<open>Unknown operators and empty operator objects\<close>

text \<open>
  Claim C8. For every field value and operand, an operator name outside the eight
  known ones evaluates to false; so a filter whose only condition uses such a name
  (\<^verbatim>\<open>{f: {$bogus: 1}}\<close>) selects no document of any document set.
\<close>

theorem unknown_operator_yields_empty:
  assumes "operator \<notin> {''$eq'', ''$ne'', ''$gt'', ''$gte'', ''$lt'', ''$lte'', ''$in'', ''$regex''}"
  shows "matchesOperator h fieldValue operator v = Inr False \<and>
         matchAll h docs [(f, JObject r [(operator, v)])] = Inr []"
proof -
  have op: "\<And>fv. matchesOperator h fv operator v = Inr False"
    using assms by (rule matchesOperator_unknown)
  have "\<And>d. matchesQuery h d [(f, JObject r [(operator, v)])] = Inr False"
    by (simp add: matchesQuery_operators op)
  then have "filter_documents h [(f, JObject r [(operator, v)])] docs = Inr []"
    by (simp add: filter_documents_none)
  then show ?thesis by (simp add: matchAll_unfold op)
qed

theorem unknown_operator_yields_empty_witness:
  "\<forall>h. matchesOperator h (JNum (Fin 30)) ''$bogus'' (JNum (Fin 1)) = Inr False \<and>
       matchAll h
         [\<lparr>oid = 1, props = [(''f'', JNum (Fin 30))]\<rparr>, \<lparr>oid = 2, props = []\<rparr>]
         [(''f'', JObject 3 [(''$bogus'', JNum (Fin 1))])] = Inr []"
  using unknown_operator_yields_empty [of "''$bogus''"] by simp

text \<open>
  Claim C10. A filter field whose value is an operator object with no keys asks
  nothing of a document: the loop over its operators runs zero times. So
  \<^verbatim>\<open>{f: {}}\<close> returns every document, where an unknown operator returns none.
\<close>

theorem empty_operator_object_is_vacuous:
  "matchesQuery h doc ((f, JObject r []) # rest) = matchesQuery h doc rest \<and>
   matchAll h docs [(f, JObject r [])] = Inr docs"
proof -
  have one: "\<And>d. matchesQuery h d [(f, JObject r [])] = Inr True"
    by (simp add: matchesQuery_operators)
  have "filter_documents h [(f, JObject r [])] docs =
          Inr (filter (\<lambda>d. matchesQuery h d [(f, JObject r [])] = Inr True) docs)"
    by (rule filter_documents_returns) (auto simp: one)
  then show ?thesis
    by (simp add: matchAll_unfold one matchesQuery_operators)
qed

theorem empty_operator_object_is_vacuous_witness:
  "\<forall>h. matchAll h
         [\<lparr>oid = 1, props = [(''f'', JNum (Fin 30))]\<rparr>, \<lparr>oid = 2, props = []\<rparr>]
         [(''f'', JObject 3 [])] =
       Inr [\<lparr>oid = 1, props = [(''f'', JNum (Fin 30))]\<rparr>, \<lparr>oid = 2, props = []\<rparr>]"
  using empty_operator_object_is_vacuous by simp

subsection \<open>Two fields are a conjunction\<close>

text \<open>
  Claim C7, as the code has it. The loop over the fields stops at the first field
  that fails, so a later field is not evaluated at all for a document the first field
  rejects. The two-field filter therefore returns the intersection of the two
  one-field results whenever both one-field queries return; when the second one-field
  query throws, the two-field query can still return.
\<close>

theorem conjunction_when_both_return:
  assumes A: "matchAll h docs [(a, X)] = Inr A"
    and B: "matchAll h docs [(b, Y)] = Inr B"
  shows "matchAll h docs [(a, X), (b, Y)] = Inr (filter (\<lambda>d. d \<in> set B) A)"
proof -
  from A have fa: "filter_documents h [(a, X)] docs = Inr A" by (simp add: matchAll_unfold)
  from B have fb: "filter_documents h [(b, Y)] docs = Inr B" by (simp add: matchAll_unfold)
  have oka: "\<forall>d \<in> set docs. \<exists>t. matchesQuery h d [(a, X)] = Inr t"
    using fa by (rule filter_documents_Inr)
  have okb: "\<forall>d \<in> set docs. \<exists>t. matchesQuery h d [(b, Y)] = Inr t"
    using fb by (rule filter_documents_Inr)
  have A_eq: "A = filter (\<lambda>d. matchesQuery h d [(a, X)] = Inr True) docs"
    using fa filter_documents_returns [OF oka] by simp
  have B_eq: "B = filter (\<lambda>d. matchesQuery h d [(b, Y)] = Inr True) docs"
    using fb filter_documents_returns [OF okb] by simp
  have both: "\<forall>d \<in> set docs. matchesQuery h d [(a, X), (b, Y)] =
      Inr (matchesQuery h d [(a, X)] = Inr True \<and> matchesQuery h d [(b, Y)] = Inr True)"
  proof
    fix d assume d: "d \<in> set docs"
    from oka d obtain s where s: "matchesQuery h d [(a, X)] = Inr s" by blast
    from okb d obtain t where t: "matchesQuery h d [(b, Y)] = Inr t" by blast
    show "matchesQuery h d [(a, X), (b, Y)] =
      Inr (matchesQuery h d [(a, X)] = Inr True \<and> matchesQuery h d [(b, Y)] = Inr True)"
      by (subst matchesQuery_single_cases) (simp add: s t)
  qed
  then have "\<forall>d \<in> set docs. \<exists>t. matchesQuery h d [(a, X), (b, Y)] = Inr t" by simp
  then have "filter_documents h [(a, X), (b, Y)] docs =
      Inr (filter (\<lambda>d. matchesQuery h d [(a, X), (b, Y)] = Inr True) docs)"
    by (rule filter_documents_returns)
  also have "filter (\<lambda>d. matchesQuery h d [(a, X), (b, Y)] = Inr True) docs =
      filter (\<lambda>d. matchesQuery h d [(a, X)] = Inr True \<and> matchesQuery h d [(b, Y)] = Inr True) docs"
    using both by (intro filter_cong) auto
  also have "\<dots> = filter (\<lambda>d. d \<in> set B) A"
    unfolding A_eq B_eq by (rule filter_both [symmetric])
  finally show ?thesis by (simp add: matchAll_unfold)
qed

text \<open>
  Three documents, the filter \<^verbatim>\<open>{age: {$gte: 28}, city: 'Oslo'}\<close>: the first field
  keeps documents 1 and 3, the second 1 and 2, both together document 1.
\<close>

theorem conjunction_when_both_return_witness:
  "\<forall>h. matchAll h
         [\<lparr>oid = 1, props = [(''age'', JNum (Fin 30)), (''city'', JStr ''Oslo'')]\<rparr>,
          \<lparr>oid = 2, props = [(''age'', JNum (Fin 25)), (''city'', JStr ''Oslo'')]\<rparr>,
          \<lparr>oid = 3, props = [(''age'', JNum (Fin 35)), (''city'', JStr ''Rome'')]\<rparr>]
         [(''age'', JObject 4 [(''$gte'', JNum (Fin 28))]), (''city'', JStr ''Oslo'')] =
       Inr [\<lparr>oid = 1, props = [(''age'', JNum (Fin 30)), (''city'', JStr ''Oslo'')]\<rparr>]"
proof
  fix h
  let ?d1 = "\<lparr>oid = 1, props = [(''age'', JNum (Fin 30)), (''city'', JStr ''Oslo'')]\<rparr>"
  let ?d2 = "\<lparr>oid = 2, props = [(''age'', JNum (Fin 25)), (''city'', JStr ''Oslo'')]\<rparr>"
  let ?d3 = "\<lparr>oid = 3, props = [(''age'', JNum (Fin 35)), (''city'', JStr ''Rome'')]\<rparr>"
  let ?X = "JObject 4 [(''$gte'', JNum (Fin 28))]"
  have a: "matchAll h [?d1, ?d2, ?d3] [(''age'', ?X)] = Inr [?d1, ?d3]"
    by (simp add: matchAll_unfold matchesQuery_Cons Get_def matchesOperator_def
        js_ge_def IsLessThan_def)
  have b: "matchAll h [?d1, ?d2, ?d3] [(''city'', JStr ''Oslo'')] = Inr [?d1, ?d2]"
    by (simp add: matchAll_unfold matchesQuery_Cons Get_def matchesOperator_def)
  show "matchAll h [?d1, ?d2, ?d3] [(''age'', ?X), (''city'', JStr ''Oslo'')] = Inr [?d1]"
    using conjunction_when_both_return [OF a b] by simp
qed

text \<open>
  The claim as the specification states it, for every two conditions, fails: on the
  one document \<^verbatim>\<open>{a: 1, b: {toString: 1}}\<close> the filter \<^verbatim>\<open>{a: 2, b: {$gt: 5}}\<close> returns
  the empty sequence (field \<^verbatim>\<open>a\<close> fails, field \<^verbatim>\<open>b\<close> is never looked at), while
  \<^verbatim>\<open>{b: {$gt: 5}}\<close> alone throws a TypeError, so that there is no second result to
  intersect with.
\<close>

theorem conjunction_counterexample:
  "\<forall>h. matchAll h
         [\<lparr>oid = 1, props = [(''a'', JNum (Fin 1)), (''b'', JObject 2 [(''toString'', JNum (Fin 1))])]\<rparr>]
         [(''a'', JNum (Fin 2)), (''b'', JObject 3 [(''$gt'', JNum (Fin 5))])] = Inr [] \<and>
       matchAll h
         [\<lparr>oid = 1, props = [(''a'', JNum (Fin 1)), (''b'', JObject 2 [(''toString'', JNum (Fin 1))])]\<rparr>]
         [(''b'', JObject 3 [(''$gt'', JNum (Fin 5))])] = Inl TypeError"
  by (simp add: matchAll_unfold matchesQuery_Cons Get_def matchesOperator_def
      js_gt_def IsLessThan_def ObjectToPrimitive_def)

subsection \<open>The ordering operators\<close>




subsection \<open>Array literals in a filter\<close>

text \<open>
  Claim C2, as the code has it. An array as a filter value is compared with \<^verbatim>\<open>===\<close>,
  which on arrays is identity: the filter selects exactly the documents whose field
  holds that very array object. It is never a test for membership: a filter value
  that is not an object (\<^verbatim>\<open>'admin'\<close>) does not match a field that holds an array.
\<close>

theorem array_literal_is_reference_equality:
  "matchAll h docs [(f, JArray r xs)] = Inr (filter (\<lambda>d. \<exists>ys. Get d f = JArray r ys) docs) \<and>
   (typeof v \<noteq> ''object'' \<longrightarrow> isArray (Get doc f) \<longrightarrow> matchesQuery h doc [(f, v)] = Inr False)"
proof (intro conjI impI)
  have one: "\<And>d. matchesQuery h d [(f, JArray r xs)] = Inr (\<exists>ys. Get d f = JArray r ys)"
  proof -
    fix d
    show "matchesQuery h d [(f, JArray r xs)] = Inr (\<exists>ys. Get d f = JArray r ys)"
      by (cases "Get d f") (simp_all add: matchesQuery_literal)
  qed
  then have "filter_documents h [(f, JArray r xs)] docs =
      Inr (filter (\<lambda>d. matchesQuery h d [(f, JArray r xs)] = Inr True) docs)"
    by (intro filter_documents_returns) simp
  then show "matchAll h docs [(f, JArray r xs)] = Inr (filter (\<lambda>d. \<exists>ys. Get d f = JArray r ys) docs)"
    by (simp add: matchAll_unfold one)
next
  assume "typeof v \<noteq> ''object''" and "isArray (Get doc f)"
  then show "matchesQuery h doc [(f, v)] = Inr False"
    by (cases v; cases "Get doc f") (simp_all add: matchesQuery_literal)
qed

text \<open>
  The document \<^verbatim>\<open>{tags: ['admin', 'user']}\<close> is selected by a filter that holds the
  same array object, and is not selected by \<^verbatim>\<open>{tags: 'admin'}\<close>.
\<close>

theorem array_literal_is_reference_equality_witness:
  "\<forall>h. matchAll h [\<lparr>oid = 1, props = [(''tags'', JArray 2 [JStr ''admin'', JStr ''user''])]\<rparr>]
          [(''tags'', JArray 2 [JStr ''admin'', JStr ''user''])] =
        Inr [\<lparr>oid = 1, props = [(''tags'', JArray 2 [JStr ''admin'', JStr ''user''])]\<rparr>] \<and>
       matchesQuery h \<lparr>oid = 1, props = [(''tags'', JArray 2 [JStr ''admin'', JStr ''user''])]\<rparr>
          [(''tags'', JStr ''admin'')] = Inr False"
proof
  fix h
  let ?d = "\<lparr>oid = 1, props = [(''tags'', JArray 2 [JStr ''admin'', JStr ''user''])]\<rparr>"
  from array_literal_is_reference_equality [of h "[?d]" "''tags''" 2 "[JStr ''admin'', JStr ''user'']" "JStr ''admin''" ?d]
  show "matchAll h [?d] [(''tags'', JArray 2 [JStr ''admin'', JStr ''user''])] = Inr [?d] \<and>
     matchesQuery h ?d [(''tags'', JStr ''admin'')] = Inr False"
    by (simp add: Get_def)
qed

text \<open>
  The scenario of the specification fails: the array literal of the filter is a new
  array (identity 3), not the array of the document (identity 2), however equal their
  elements, and nothing is selected.
\<close>

theorem array_literal_counterexample:
  "\<forall>h. matchAll h [\<lparr>oid = 1, props = [(''tags'', JArray 2 [JStr ''admin'', JStr ''user''])]\<rparr>]
          [(''tags'', JArray 3 [JStr ''admin'', JStr ''user''])] = Inr []"
  by (simp add: matchAll_unfold matchesQuery_Cons Get_def matchesOperator_def)

subsection \<open>Membership\<close>

text \<open>
  Claim C3, as the code has it. \<^verbatim>\<open>$in\<close> is true if and only if the operand is an
  array with an element that is strictly equal to the field value, or that is NaN when
  the field value is NaN (\<^verbatim>\<open>includes\<close> compares with SameValueZero); for an operand
  that is not an array it is false.
\<close>

theorem in_operator_is_includes:
  "matchesOperator h fieldValue ''$in'' v =
     Inr (\<exists>r xs. v = JArray r xs \<and>
            (\<exists>x \<in> set xs. strict_equals x fieldValue \<or> (x = JNum NaN \<and> fieldValue = JNum NaN))) \<and>
   (\<not> isArray v \<longrightarrow> matchesOperator h fieldValue ''$in'' v = Inr False)"
  by (cases v) (simp_all add: matchesOperator_def Array_includes_iff SameValueZero_iff)

theorem in_operator_is_includes_witness:
  "\<forall>h. matchesOperator h (JNum (Fin 25)) ''$in'' (JArray 1 [JNum (Fin 25), JNum (Fin 35)]) = Inr True \<and>
       matchesOperator h (JNum (Fin 30)) ''$in'' (JArray 1 [JNum (Fin 25), JNum (Fin 35)]) = Inr False \<and>
       matchesOperator h (JNum (Fin 25)) ''$in'' (JNum (Fin 25)) = Inr False"
  using in_operator_is_includes [of _ "JNum (Fin 25)" "JArray 1 [JNum (Fin 25), JNum (Fin 35)]"]
    in_operator_is_includes [of _ "JNum (Fin 30)" "JArray 1 [JNum (Fin 25), JNum (Fin 35)]"]
    in_operator_is_includes [of _ "JNum (Fin 25)" "JNum (Fin 25)"]
  by simp

text \<open>
  The claim as the specification states it fails for NaN: \<^verbatim>\<open>$in\<close> finds NaN in
  \<^verbatim>\<open>[NaN]\<close>, although NaN is not strictly equal to NaN.
\<close>

theorem in_operator_NaN_counterexample:
  "(\<forall>h. matchesOperator h (JNum NaN) ''$in'' (JArray 1 [JNum NaN]) = Inr True) \<and>
   \<not> strict_equals (JNum NaN) (JNum NaN)"
  by (simp add: matchesOperator_def)

subsection \<open>A missing field\<close>

text \<open>
  Claim C9, as the code has it. For every document without an own field \<open>f\<close>, where
  \<open>f\<close> is not one of the twelve names that every object inherits from
  \<^verbatim>\<open>Object.prototype\<close>: the filter \<^verbatim>\<open>{f: {$eq: c}}\<close> fails and \<^verbatim>\<open>{f: {$ne: c}}\<close> passes
  for every operand \<open>c\<close> other than \<^verbatim>\<open>undefined\<close>; and each of \<^verbatim>\<open>$gt\<close>, \<^verbatim>\<open>$gte\<close>,
  \<^verbatim>\<open>$lt\<close>, \<^verbatim>\<open>$lte\<close> is false on the missing field for every operand that has a
  primitive value.
\<close>

theorem missing_field_asymmetry:
  assumes "map_of (props doc) f = None" and "f \<notin> set inherited_names"
  shows "(c \<noteq> JUndefined \<longrightarrow>
            matchesQuery h doc [(f, JObject r [(''$eq'', c)])] = Inr False \<and>
            matchesQuery h doc [(f, JObject r [(''$ne'', c)])] = Inr True) \<and>
         (operator \<in> {''$gt'', ''$gte'', ''$lt'', ''$lte''} \<longrightarrow> convertible v \<longrightarrow>
            matchesOperator h (Get doc f) operator v = Inr False \<and>
            matchesQuery h doc [(f, JObject r [(operator, v)])] = Inr False)"
proof (intro conjI impI)
  have g: "Get doc f = JUndefined"
    using assms by (rule Get_missing)
  {
    assume "c \<noteq> JUndefined"
    then show "matchesQuery h doc [(f, JObject r [(''$eq'', c)])] = Inr False"
      and "matchesQuery h doc [(f, JObject r [(''$ne'', c)])] = Inr True"
      by (simp_all add: matchesQuery_operators g matchesOperator_def strict_equals_undefined)
  }
  {
    assume ord: "operator \<in> {''$gt'', ''$gte'', ''$lt'', ''$lte''}" and "convertible v"
    then obtain p where "ToPrimitive h v = Inr p"
      using ToPrimitive_fails [of h v] by (cases "ToPrimitive h v") auto
    with ord have "matchesOperator h JUndefined operator v = Inr False"
      by (rule ordering_undefined)
    then show "matchesOperator h (Get doc f) operator v = Inr False"
      and "matchesQuery h doc [(f, JObject r [(operator, v)])] = Inr False"
      by (simp_all add: matchesQuery_operators g)
  }
qed

theorem missing_field_asymmetry_witness:
  "\<forall>h. matchesQuery h \<lparr>oid = 1, props = [(''g'', JNum (Fin 5))]\<rparr>
          [(''f'', JObject 2 [(''$eq'', JNum (Fin 5))])] = Inr False \<and>
       matchesQuery h \<lparr>oid = 1, props = [(''g'', JNum (Fin 5))]\<rparr>
          [(''f'', JObject 2 [(''$ne'', JNum (Fin 5))])] = Inr True \<and>
       matchesQuery h \<lparr>oid = 1, props = [(''g'', JNum (Fin 5))]\<rparr>
          [(''f'', JObject 2 [(''$lte'', JStr ''a'')])] = Inr False"
  using missing_field_asymmetry [of "\<lparr>oid = 1, props = [(''g'', JNum (Fin 5))]\<rparr>" "''f''"
      "JNum (Fin 5)" _ 2 "''$lte''" "JStr ''a''"]
  by (simp add: inherited_names_def Object_prototype_methods_def)

text \<open>
  The claim as the specification states it, for every missing field and every operand,
  fails in two ways. With the operand \<^verbatim>\<open>{toString: 1}\<close>, which has no primitive value,
  \<^verbatim>\<open>$gt\<close> on the missing field \<^verbatim>\<open>f\<close> throws a TypeError. And a field the document
  does not own is not always read as \<^verbatim>\<open>undefined\<close>: on the empty document
  \<^verbatim>\<open>__proto__\<close> reads as \<^verbatim>\<open>Object.prototype\<close>, whose primitive value
  \<^verbatim>\<open>[object Object]\<close> is greater than the empty string, and \<^verbatim>\<open>constructor\<close> reads as
  the function \<^verbatim>\<open>Object\<close>, which is greater than the empty string as soon as its source
  text is not empty.
\<close>

theorem missing_field_ordering_counterexample:
  "\<forall>h. matchesQuery h \<lparr>oid = 1, props = []\<rparr>
          [(''f'', JObject 3 [(''$gt'', JObject 2 [(''toString'', JNum (Fin 1))])])] = Inl TypeError \<and>
       matchesQuery h \<lparr>oid = 1, props = []\<rparr>
          [(''__proto__'', JObject 3 [(''$gt'', JStr [])])] = Inr True \<and>
       matchesQuery h \<lparr>oid = 1, props = []\<rparr>
          [(''constructor'', JObject 3 [(''$gt'', JStr [])])] =
         Inr (FunctionToString h ''Object'' \<noteq> [])"
proof
  fix h
  have nonempty: "\<And>s. String_lessThan [] s = (s \<noteq> [])"
  proof -
    fix s :: string
    show "String_lessThan [] s = (s \<noteq> [])" by (cases s) simp_all
  qed
  show "matchesQuery h \<lparr>oid = 1, props = []\<rparr>
          [(''f'', JObject 3 [(''$gt'', JObject 2 [(''toString'', JNum (Fin 1))])])] = Inl TypeError \<and>
       matchesQuery h \<lparr>oid = 1, props = []\<rparr>
          [(''__proto__'', JObject 3 [(''$gt'', JStr [])])] = Inr True \<and>
       matchesQuery h \<lparr>oid = 1, props = []\<rparr>
          [(''constructor'', JObject 3 [(''$gt'', JStr [])])] =
         Inr (FunctionToString h ''Object'' \<noteq> [])"
    by (simp add: matchesQuery_Cons Get_unfold matchesOperator_def js_gt_def IsLessThan_def
        ObjectToPrimitive_def nonempty)
qed

subsection \<open>Exceptions\<close>

text \<open>
  Claim C4, as the code has it. When \<open>matchAll\<close> throws, one operator of an operator
  object of the filter threw on the field of one document; and an operator throws in
  exactly these situations: \<^verbatim>\<open>$regex\<close> on a string field with a pattern operand that
  does not compile (SyntaxError) or that cannot be converted to a string (TypeError),
  or an ordering operator one of whose two values cannot be converted to a primitive
  (TypeError). Everything else returns a boolean: an unknown operator, \<^verbatim>\<open>$eq\<close>,
  \<^verbatim>\<open>$ne\<close>, \<^verbatim>\<open>$in\<close>, a missing field, a comparison of primitives of any types, and
  \<^verbatim>\<open>$regex\<close> on a field that is not a string, which is false whatever the operand.
\<close>

theorem raising_situations:
  "(matchAll h docs query = Inl e \<longrightarrow>
      (\<exists>doc key r ops operator v. doc \<in> set docs \<and> (key, JObject r ops) \<in> set query \<and>
          (operator, v) \<in> set ops \<and> matchesOperator h (Get doc key) operator v = Inl e)) \<and>
   ((matchesOperator h fv operator v = Inl e) =
      ((operator = ''$regex'' \<and> (\<exists>s. fv = JStr s) \<and>
          ((e = SyntaxError \<and>
              (\<exists>p. (if v = JUndefined then Inr [] else ToString h v) = Inr p \<and> \<not> RegExpValid h p)) \<or>
           (e = TypeError \<and> (\<exists>e'. ToString h v = Inl e')))) \<or>
       (operator \<in> {''$gt'', ''$gte'', ''$lt'', ''$lte''} \<and> e = TypeError \<and>
          ((\<exists>e'. ToPrimitive h fv = Inl e') \<or> (\<exists>e'. ToPrimitive h v = Inl e'))))) \<and>
   ((\<forall>s. fv \<noteq> JStr s) \<longrightarrow> matchesOperator h fv ''$regex'' v = Inr False)"
proof (intro conjI impI)
  assume "matchAll h docs query = Inl e"
  then have "filter_documents h query docs = Inl e"
    by (simp add: matchAll_unfold split: if_splits)
  then obtain doc where doc: "doc \<in> set docs" and q: "matchesQuery h doc query = Inl e"
    using filter_documents_Inl by blast
  from q obtain key r ops where k: "(key, JObject r ops) \<in> set query"
    and ops: "matchesOperators h (Get doc key) ops = Inl e"
    using matchesQuery_Inl by blast
  from ops obtain operator v where "(operator, v) \<in> set ops"
    and "matchesOperator h (Get doc key) operator v = Inl e"
    using matchesOperators_Inl by blast
  with doc k show "\<exists>doc key r ops operator v. doc \<in> set docs \<and> (key, JObject r ops) \<in> set query \<and>
          (operator, v) \<in> set ops \<and> matchesOperator h (Get doc key) operator v = Inl e"
    by blast
next
  show "(matchesOperator h fv operator v = Inl e) =
      ((operator = ''$regex'' \<and> (\<exists>s. fv = JStr s) \<and>
          ((e = SyntaxError \<and>
              (\<exists>p. (if v = JUndefined then Inr [] else ToString h v) = Inr p \<and> \<not> RegExpValid h p)) \<or>
           (e = TypeError \<and> (\<exists>e'. ToString h v = Inl e')))) \<or>
       (operator \<in> {''$gt'', ''$gte'', ''$lt'', ''$lte''} \<and> e = TypeError \<and>
          ((\<exists>e'. ToPrimitive h fv = Inl e') \<or> (\<exists>e'. ToPrimitive h v = Inl e'))))"
    by (simp only: matchesOperator_Inl RegExp_new_Inl)
next
  assume "\<forall>s. fv \<noteq> JStr s"
  then show "matchesOperator h fv ''$regex'' v = Inr False"
    by (cases fv) (simp_all add: matchesOperator_def)
qed

theorem raising_situations_witness:
  "\<forall>h. matchAll h [\<lparr>oid = 1, props = [(''f'', JObject 2 [(''toString'', JNum (Fin 1))])]\<rparr>]
          [(''f'', JObject 3 [(''$gte'', JNum (Fin 5))])] = Inl TypeError \<and>
       (\<exists>doc key r ops operator v.
          doc \<in> set [\<lparr>oid = 1, props = [(''f'', JObject 2 [(''toString'', JNum (Fin 1))])]\<rparr>] \<and>
          (key, JObject r ops) \<in> set [(''f'', JObject 3 [(''$gte'', JNum (Fin 5))])] \<and>
          (operator, v) \<in> set ops \<and>
          matchesOperator h (Get doc key) operator v = Inl TypeError) \<and>
       matchesOperator h (JNum (Fin 5)) ''$regex'' (JStr ''('') = Inr False"
proof
  fix h
  let ?d = "\<lparr>oid = 1, props = [(''f'', JObject 2 [(''toString'', JNum (Fin 1))])]\<rparr>"
  let ?q = "[(''f'', JObject 3 [(''$gte'', JNum (Fin 5))])]"
  note T = raising_situations [of h "[?d]" ?q TypeError "JNum (Fin 5)" "''$gte''" "JStr ''(''"]
  have raised: "matchAll h [?d] ?q = Inl TypeError"
    by (simp add: matchAll_unfold matchesQuery_Cons Get_def matchesOperator_def
        js_ge_def IsLessThan_def ObjectToPrimitive_def)
  from T have "matchAll h [?d] ?q = Inl TypeError \<longrightarrow>
      (\<exists>doc key r ops operator v. doc \<in> set [?d] \<and> (key, JObject r ops) \<in> set ?q \<and>
          (operator, v) \<in> set ops \<and> matchesOperator h (Get doc key) operator v = Inl TypeError)"
    by (rule conjunct1)
  then have ex: "\<exists>doc key r ops operator v. doc \<in> set [?d] \<and> (key, JObject r ops) \<in> set ?q \<and>
          (operator, v) \<in> set ops \<and> matchesOperator h (Get doc key) operator v = Inl TypeError"
    using raised by (rule mp)
  from T have "(\<forall>s. JNum (Fin 5) \<noteq> JStr s) \<longrightarrow>
      matchesOperator h (JNum (Fin 5)) ''$regex'' (JStr ''('') = Inr False"
    by (rule conjunct2 [OF conjunct2])
  then have rx: "matchesOperator h (JNum (Fin 5)) ''$regex'' (JStr ''('') = Inr False"
    by simp
  from raised ex rx
  show "matchAll h [?d] ?q = Inl TypeError \<and>
       (\<exists>doc key r ops operator v. doc \<in> set [?d] \<and> (key, JObject r ops) \<in> set ?q \<and>
          (operator, v) \<in> set ops \<and> matchesOperator h (Get doc key) operator v = Inl TypeError) \<and>
       matchesOperator h (JNum (Fin 5)) ''$regex'' (JStr ''('') = Inr False"
    by (intro conjI)
qed

text \<open>
  The claim as the specification states it names one situation and false for all
  others. A filter without any \<^verbatim>\<open>$regex\<close> throws on the document
  \<^verbatim>\<open>{f: {toString: 1}}\<close>; the mismatched comparison \<^verbatim>\<open>true >= 1\<close> is true, not
  false; and a missing field passes \<^verbatim>\<open>$ne\<close>.
\<close>

theorem raising_counterexample:
  "(\<forall>h. matchesQuery h \<lparr>oid = 1, props = [(''f'', JObject 2 [(''toString'', JNum (Fin 1))])]\<rparr>
          [(''f'', JObject 3 [(''$gte'', JNum (Fin 5))])] = Inl TypeError) \<and>
   (\<forall>h. matchesQuery h \<lparr>oid = 1, props = [(''f'', JBool True)]\<rparr>
          [(''f'', JObject 3 [(''$gte'', JNum (Fin 1))])] = Inr True) \<and>
   (\<forall>h. matchesQuery h \<lparr>oid = 1, props = []\<rparr>
          [(''f'', JObject 3 [(''$ne'', JNum (Fin 1))])] = Inr True)"
  by (simp add: matchesQuery_Cons Get_unfold matchesOperator_def js_ge_def IsLessThan_def
      ObjectToPrimitive_def)

end
